theory Spec2Isabelle
  imports Main
begin

section \<open>Association metadata resolver and association handle (association.go)\<close>

text \<open>
  A shallow embedding of \<^verbatim>\<open>association.go\<close>. The Go code works on
  \<^verbatim>\<open>reflect.Type\<close> and \<^verbatim>\<open>reflect.Value\<close>; the part of the reflection
  interface that the file calls is modelled first, with every panic of the
  library as an error value. Collaborators that live in other files of the
  package (the field-metadata extractor, the name helpers, the record wrapper)
  are parameters, gathered in one record.
\<close>

subsection \<open>Panics\<close>

datatype error = Panic string

subsection \<open>Types as reflection sees them\<close>

datatype Kind = KInvalid | KBool | KInt | KString | KPtr | KSlice | KStruct

type_synonym StructTag = "(string \<times> string) list"

text \<open>
  A type is a finite tree: a named struct with its declared fields, a pointer,
  a slice, or one of three scalar types. A declared field has a name, a type
  and its tag, the tag already parsed into key/value pairs. Two types are the
  same type when the trees are equal. A record type that refers to itself
  through a pointer or a slice is no finite tree and has no counterpart here;
  the resolver looks at the host's fields, at the field's own type and at the
  name of the target type only.
\<close>

datatype rtype =
    TStruct string "fdecl list"
  | TPtr rtype
  | TSlice rtype
  | TBool
  | TInt
  | TString
and fdecl = FDecl string rtype StructTag

text \<open>What \<^verbatim>\<open>Type.Field(i)\<close> returns: the declaration and the index sequence \<^verbatim>\<open>[]int{i}\<close>.\<close>

record StructField =
  sfName :: string
  sfType :: rtype
  sfTag :: StructTag
  sfIndex :: "int list"

fun Type_Kind :: "rtype \<Rightarrow> Kind" where
  "Type_Kind (TStruct n fs) = KStruct"
| "Type_Kind (TPtr t) = KPtr"
| "Type_Kind (TSlice t) = KSlice"
| "Type_Kind TBool = KBool"
| "Type_Kind TInt = KInt"
| "Type_Kind TString = KString"

fun Type_Name :: "rtype \<Rightarrow> string" where
  "Type_Name (TStruct n fs) = n"
| "Type_Name (TPtr t) = ''''"
| "Type_Name (TSlice t) = ''''"
| "Type_Name TBool = ''bool''"
| "Type_Name TInt = ''int''"
| "Type_Name TString = ''string''"

text \<open>\<^verbatim>\<open>Type.Elem()\<close> panics on a type that is neither pointer nor slice.\<close>

fun Type_Elem :: "rtype \<Rightarrow> error + rtype" where
  "Type_Elem (TPtr t) = Inr t"
| "Type_Elem (TSlice t) = Inr t"
| "Type_Elem t = Inl (Panic ''reflect: Elem of invalid type'')"

text \<open>\<^verbatim>\<open>Type.Field(i)\<close> panics on a non-struct type and on an index out of range.\<close>

fun Type_Field :: "rtype \<Rightarrow> int \<Rightarrow> error + StructField" where
  "Type_Field (TStruct n fs) i =
     (if 0 \<le> i \<and> i < int (length fs)
      then (case fs ! nat i of FDecl fn ft tg \<Rightarrow>
              Inr \<lparr>sfName = fn, sfType = ft, sfTag = tg, sfIndex = [i]\<rparr>)
      else Inl (Panic ''reflect: Field index out of bounds''))"
| "Type_Field t i = Inl (Panic ''reflect: Field of non-struct type'')"

text \<open>\<^verbatim>\<open>StructTag.Get(key)\<close>: the value of the first pair with that key, else the empty string.\<close>

definition Tag_Get :: "StructTag \<Rightarrow> string \<Rightarrow> string" where
  "Tag_Get tg k = (case map_of tg k of Some v \<Rightarrow> v | None \<Rightarrow> '''')"

text \<open>
  \<^verbatim>\<open>strings.Split(s, sep)\<close> for a separator of one character: the pieces
  between the separators, always at least one piece.
\<close>

fun Split :: "string \<Rightarrow> char \<Rightarrow> string list" where
  "Split [] c = [[]]"
| "Split (x # xs) c =
     (if x = c then [] # Split xs c
      else (case Split xs c of w # ws \<Rightarrow> (x # w) # ws | [] \<Rightarrow> [[x]]))"

subsection \<open>The descriptor and its cache\<close>

datatype AssociationType = BelongsTo | HasOne | HasMany | ManyToMany

type_synonym associationKey = "rtype \<times> int"

record associationData =
  "typ" :: AssociationType
  targetIndex :: "int list"
  referenceField :: string
  referenceIndex :: int
  referenceThrough :: string
  foreignField :: string
  foreignIndex :: int
  foreignThrough :: string
  through :: string
  autosave :: bool

type_synonym associationCache = "associationKey \<rightharpoonup> associationData"

text \<open>Of the field metadata of a type only the name-to-position index is read here.\<close>

record documentData =
  index :: "string \<rightharpoonup> int"

subsection \<open>Collaborators from other files of the package\<close>

text \<open>
  \<^verbatim>\<open>snaker.CamelToSnake\<close>, \<^verbatim>\<open>fieldName\<close> and \<^verbatim>\<open>extractDocumentData\<close> are
  not defined in this file. They are parameters of the resolver; the extractor
  is given a type by reflection and may panic, so it returns a sum.
\<close>

record resolverEnv =
  CamelToSnake :: "string \<Rightarrow> string"
  fieldName :: "StructField \<Rightarrow> string"
  extractDocumentData :: "rtype \<Rightarrow> bool \<Rightarrow> error + documentData"

subsection \<open>getAssocField\<close>

definition getAssocField :: "StructTag \<Rightarrow> string \<Rightarrow> string \<times> string" where
  "getAssocField tg field =
     (let fields = Split (Tag_Get tg field) CHR '':''
      in if length fields = 2 then (fields ! 0, fields ! 1) else (fields ! 0, ''''))"

subsection \<open>extractAssociationData\<close>

text \<open>The loop that strips pointers and slices from the field's type.\<close>

fun unwrap :: "rtype \<Rightarrow> rtype" where
  "unwrap (TPtr t) = unwrap t"
| "unwrap (TSlice t) = unwrap t"
| "unwrap t = t"

text \<open>
  Lines 215 to 230: the four names after the guessing step, in the order
  reference key, foreign key, reference-through, foreign-through.
\<close>

definition guessKeys ::
  "resolverEnv \<Rightarrow> rtype \<Rightarrow> rtype \<Rightarrow> documentData \<Rightarrow> string \<Rightarrow> string \<Rightarrow>
   string \<times> string \<Rightarrow> string \<times> string \<Rightarrow> string \<times> string \<times> string \<times> string" where
  "guessKeys E rt ft refDocData fName thr r f =
     (case r of (ref, refThrough) \<Rightarrow> case f of (fk, fkThrough) \<Rightarrow>
      if ref = '''' \<or> fk = '''' then
        (if thr \<noteq> '''' then
           (''id'', ''id'',
            CamelToSnake E (Type_Name rt) @ ''_id'',
            CamelToSnake E (Type_Name ft) @ ''_id'')
         else if index refDocData (fName @ ''_id'') \<noteq> None then
           (fName @ ''_id'', ''id'', refThrough, fkThrough)
         else
           (''id'', CamelToSnake E (Type_Name rt) @ ''_id'', refThrough, fkThrough))
      else (ref, fk, refThrough, fkThrough))"

text \<open>Line 247: the test that makes a field sequence-typed.\<close>

definition isSliceField :: "rtype \<Rightarrow> bool" where
  "isSliceField t =
     (Type_Kind t = KSlice \<or>
      (Type_Kind t = KPtr \<and>
       (case Type_Elem t of Inr e \<Rightarrow> Type_Kind e = KSlice | Inl x \<Rightarrow> False)))"

text \<open>Lines 246 to 262: the association type and the through names.\<close>

definition guessType ::
  "StructField \<Rightarrow> string \<Rightarrow> string \<Rightarrow> string \<Rightarrow> associationData \<Rightarrow> associationData" where
  "guessType sf thr refThrough fkThrough assocData =
     (if isSliceField (sfType sf) then
        (if thr \<noteq> '''' then
           assocData\<lparr>typ := ManyToMany, referenceThrough := refThrough,
                     foreignThrough := fkThrough, through := thr\<rparr>
         else assocData\<lparr>typ := HasMany\<rparr>)
      else
        (if length (referenceField assocData) > length (foreignField assocData)
         then assocData\<lparr>typ := BelongsTo\<rparr>
         else assocData\<lparr>typ := HasOne\<rparr>))"

text \<open>Lines 232 to 244: both key names must be in the field indexes.\<close>

definition lookupKeys ::
  "documentData \<Rightarrow> documentData \<Rightarrow> string \<Rightarrow> string \<Rightarrow> associationData \<Rightarrow>
   error + associationData" where
  "lookupKeys refDocData fkDocData ref fk assocData =
     (case index refDocData ref of
        None \<Rightarrow> Inl (Panic (''rel: references ('' @ ref @ '') field not found ''))
      | Some rid \<Rightarrow>
          (case index fkDocData fk of
             None \<Rightarrow> Inl (Panic (''rel: foreign_key ('' @ fk @ '') field not found''))
           | Some fid \<Rightarrow>
               Inr (assocData\<lparr>referenceIndex := rid, referenceField := ref,
                               foreignIndex := fid, foreignField := fk\<rparr>)))"

text \<open>
  Lines 193 to 262, the computation on a cache miss. The zero value of
  \<^verbatim>\<open>associationData\<close> has type \<^verbatim>\<open>BelongsTo\<close> (the constant 0), empty strings
  and zero positions.
\<close>

definition resolve :: "resolverEnv \<Rightarrow> rtype \<Rightarrow> int \<Rightarrow> error + associationData" where
  "resolve E rt pos =
     (case Type_Field rt pos of
        Inl e \<Rightarrow> Inl e
      | Inr sf \<Rightarrow>
         (let r = getAssocField (sfTag sf) ''ref'';
              f = getAssocField (sfTag sf) ''fk'';
              thr = Tag_Get (sfTag sf) ''through'';
              fName = fieldName E sf;
              assocData = \<lparr>typ = BelongsTo, targetIndex = sfIndex sf,
                referenceField = '''', referenceIndex = 0, referenceThrough = '''',
                foreignField = '''', foreignIndex = 0, foreignThrough = '''',
                through = '''', autosave = (Tag_Get (sfTag sf) ''autosave'' = ''true'')\<rparr>;
              ft = unwrap (sfType sf)
          in (case extractDocumentData E rt True of
                Inl e \<Rightarrow> Inl e
              | Inr refDocData \<Rightarrow>
                 (case extractDocumentData E ft True of
                    Inl e \<Rightarrow> Inl e
                  | Inr fkDocData \<Rightarrow>
                     (case guessKeys E rt ft refDocData fName thr r f of
                        (ref, fk, refThrough, fkThrough) \<Rightarrow>
                          (case lookupKeys refDocData fkDocData ref fk assocData of
                             Inl e \<Rightarrow> Inl e
                           | Inr assocData' \<Rightarrow>
                               Inr (guessType sf thr refThrough fkThrough assocData')))))))"

text \<open>
  The function itself: a hit in the cache returns the stored descriptor, a miss
  computes it and stores it. A panic leaves the cache as it was.
\<close>

definition extractAssociationData ::
  "resolverEnv \<Rightarrow> associationCache \<Rightarrow> rtype \<Rightarrow> int \<Rightarrow>
   (error + associationData) \<times> associationCache" where
  "extractAssociationData E cache rt pos =
     (let key = (rt, pos) in
      case cache key of
        Some val \<Rightarrow> (Inr val, cache)
      | None \<Rightarrow>
          (case resolve E rt pos of
             Inl e \<Rightarrow> (Inl e, cache)
           | Inr assocData \<Rightarrow> (Inr assocData, cache(key \<mapsto> assocData))))"


subsection \<open>Values as reflection sees them\<close>

text \<open>
  A \<^verbatim>\<open>reflect.Value\<close> is a type together with what is stored, and the flag
  that says whether the value is addressable; the zero \<^verbatim>\<open>Value\<close> has kind
  \<^verbatim>\<open>Invalid\<close>. A pointer owns what it points to (\<open>None\<close> is nil), a slice is
  nil or a list. Exported and unexported fields are not told apart.
\<close>

datatype content =
    DStruct "content list"
  | DPtr "content option"
  | DSlice "content list option"
  | DBool bool
  | DInt int
  | DString string

datatype Value = Invalid | Val rtype content bool

fun Zero :: "rtype \<Rightarrow> content" and ZeroField :: "fdecl \<Rightarrow> content" where
  "Zero (TStruct n fs) = DStruct (map ZeroField fs)"
| "Zero (TPtr t) = DPtr None"
| "Zero (TSlice t) = DSlice None"
| "Zero TBool = DBool False"
| "Zero TInt = DInt 0"
| "Zero TString = DString ''''"
| "ZeroField (FDecl n t tg) = Zero t"

fun Value_Kind :: "Value \<Rightarrow> Kind" where
  "Value_Kind Invalid = KInvalid"
| "Value_Kind (Val t c a) = Type_Kind t"

fun Value_Type :: "Value \<Rightarrow> error + rtype" where
  "Value_Type Invalid = Inl (Panic ''reflect: call of reflect.Value.Type on zero Value'')"
| "Value_Type (Val t c a) = Inr t"

fun Value_IsNil :: "Value \<Rightarrow> error + bool" where
  "Value_IsNil (Val (TPtr t) (DPtr p) a) = Inr (p = None)"
| "Value_IsNil (Val (TSlice t) (DSlice s) a) = Inr (s = None)"
| "Value_IsNil v = Inl (Panic ''reflect: call of reflect.Value.IsNil on a value that cannot be nil'')"

text \<open>\<^verbatim>\<open>Elem\<close> of a nil pointer is the zero \<^verbatim>\<open>Value\<close>; what a pointer points to is addressable.\<close>

fun Value_Elem :: "Value \<Rightarrow> error + Value" where
  "Value_Elem (Val (TPtr t) (DPtr None) a) = Inr Invalid"
| "Value_Elem (Val (TPtr t) (DPtr (Some c)) a) = Inr (Val t c True)"
| "Value_Elem v = Inl (Panic ''reflect: call of reflect.Value.Elem on a value that is no pointer'')"

text \<open>A field of a struct value is addressable when the struct is.\<close>

fun Value_Field :: "Value \<Rightarrow> int \<Rightarrow> error + Value" where
  "Value_Field (Val (TStruct n fs) (DStruct cs) a) i =
     (if 0 \<le> i \<and> i < int (length fs) \<and> i < int (length cs)
      then (case fs ! nat i of FDecl fn ft tg \<Rightarrow> Inr (Val ft (cs ! nat i) a))
      else Inl (Panic ''reflect: Field index out of range''))"
| "Value_Field Invalid i = Inl (Panic ''reflect: call of reflect.Value.Field on zero Value'')"
| "Value_Field v i = Inl (Panic ''reflect: call of reflect.Value.Field on a value that is no struct'')"

text \<open>
  \<^verbatim>\<open>FieldByIndex\<close>: one index is \<^verbatim>\<open>Field\<close>; a longer sequence walks into
  nested structs, going through a pointer to a struct from the second step on.
\<close>

fun FieldByIndex_loop :: "Value \<Rightarrow> bool \<Rightarrow> int list \<Rightarrow> error + Value" where
  "FieldByIndex_loop v later [] = Inr v"
| "FieldByIndex_loop v later (x # xs) =
     (case (if later \<and> Value_Kind v = KPtr \<and>
               (case Value_Type v of
                  Inr t \<Rightarrow> (case Type_Elem t of Inr e \<Rightarrow> Type_Kind e = KStruct | Inl err \<Rightarrow> False)
                | Inl err \<Rightarrow> False)
            then (case Value_IsNil v of
                    Inl e \<Rightarrow> Inl e
                  | Inr isnil \<Rightarrow>
                      if isnil
                      then Inl (Panic ''reflect: indirection through nil pointer to embedded struct'')
                      else Value_Elem v)
            else Inr v) of
        Inl e \<Rightarrow> Inl e
      | Inr v' \<Rightarrow>
          (case Value_Field v' x of
             Inl e \<Rightarrow> Inl e
           | Inr w \<Rightarrow> FieldByIndex_loop w True xs))"

definition Value_FieldByIndex :: "Value \<Rightarrow> int list \<Rightarrow> error + Value" where
  "Value_FieldByIndex v idx =
     (if length idx = 1 then Value_Field v (idx ! 0)
      else if Value_Kind v \<noteq> KStruct
      then Inl (Panic ''reflect: call of reflect.Value.FieldByIndex on a value that is no struct'')
      else FieldByIndex_loop v False idx)"

text \<open>\<^verbatim>\<open>reflect.New\<close>: a pointer to a fresh zero value.\<close>

definition New :: "rtype \<Rightarrow> Value" where
  "New t = Val (TPtr t) (DPtr (Some (Zero t))) False"

text \<open>\<^verbatim>\<open>reflect.MakeSlice(t, 0, 0)\<close>: an empty slice that is not nil; a panic on a type that is no slice.\<close>

definition MakeSlice :: "rtype \<Rightarrow> error + Value" where
  "MakeSlice t =
     (if Type_Kind t = KSlice then Inr (Val t (DSlice (Some [])) False)
      else Inl (Panic ''reflect.MakeSlice of non-slice type''))"

text \<open>
  \<^verbatim>\<open>v.Set(x)\<close> needs an addressable \<open>v\<close> and an \<open>x\<close> of the type of \<open>v\<close>. The
  result is \<open>v\<close> as it reads after the store.
\<close>

fun Value_Set :: "Value \<Rightarrow> Value \<Rightarrow> error + Value" where
  "Value_Set (Val t c a) (Val t' c' a') =
     (if \<not> a then Inl (Panic ''reflect: reflect.Value.Set using unaddressable value'')
      else if t' \<noteq> t then Inl (Panic ''reflect.Set: value is not assignable to type'')
      else Inr (Val t c' a))"
| "Value_Set v x = Inl (Panic ''reflect: call of reflect.Value.Set on zero Value'')"

fun Value_Addr :: "Value \<Rightarrow> error + Value" where
  "Value_Addr (Val t c a) =
     (if a then Inr (Val (TPtr t) (DPtr (Some c)) False)
      else Inl (Panic ''reflect.Value.Addr of unaddressable value''))"
| "Value_Addr Invalid = Inl (Panic ''reflect.Value.Addr of unaddressable value'')"

text \<open>\<^verbatim>\<open>reflect.Indirect\<close>: what a pointer points to, any other value as it is.\<close>

definition Indirect :: "Value \<Rightarrow> error + Value" where
  "Indirect v = (if Value_Kind v \<noteq> KPtr then Inr v else Value_Elem v)"

text \<open>
  The host record is shared memory in Go: a store through a field's value is
  seen by the host. Here the host is passed along, and a store writes the new
  content back at the place that \<^verbatim>\<open>FieldByIndex\<close> read. A call that panics
  returns the panic only: what it stored before the panic is not kept.
\<close>

fun writeBack :: "int list \<Rightarrow> content \<Rightarrow> content \<Rightarrow> content" where
  "writeBack [] new c = new"
| "writeBack (x # xs) new (DStruct cs) = DStruct (cs[nat x := writeBack xs new (cs ! nat x)])"
| "writeBack (x # xs) new (DPtr (Some c)) = DPtr (Some (writeBack (x # xs) new c))"
| "writeBack (x # xs) new c = c"

fun contentOf :: "Value \<Rightarrow> content" where
  "contentOf (Val t c a) = c"
| "contentOf Invalid = DPtr None"

fun storeAt :: "Value \<Rightarrow> int list \<Rightarrow> Value \<Rightarrow> Value" where
  "storeAt (Val t c a) idx w = Val t (writeBack idx (contentOf w) c) a"
| "storeAt Invalid idx w = Invalid"

subsection \<open>The association handle\<close>

record Association =
  data :: associationData
  rv :: Value

text \<open>
  Modelled from the spec: the record wrapper and the collection wrapper of
  section 6, \<^verbatim>\<open>wrap(pointerToStruct)\<close> and \<^verbatim>\<open>wrap(pointerToSequence)\<close>, are
  defined in other files. A wrapper holds the pointer it was given.
\<close>

datatype Document = NewDocument Value

datatype Collection = NewCollection Value

text \<open>
  \<^verbatim>\<open>Document.Persisted\<close>, \<^verbatim>\<open>isDeepZero\<close> and \<^verbatim>\<open>indirect\<close> are defined in
  other files as well; they are parameters. \<open>'i\<close> stands for \<^verbatim>\<open>interface{}\<close>.
\<close>

record 'i handleEnv =
  Persisted :: "Document \<Rightarrow> bool"
  isDeepZero :: "Value \<Rightarrow> int \<Rightarrow> bool"
  indirect :: "Value \<Rightarrow> 'i"

definition Type :: "Association \<Rightarrow> AssociationType" where
  "Type a = typ (data a)"

text \<open>
  \<^verbatim>\<open>Document()\<close> returns the wrapped target, the loaded flag, and the handle
  over the host as it is after the call.
\<close>

definition Document :: "'i handleEnv \<Rightarrow> Association \<Rightarrow> error + (Document \<times> bool) \<times> Association" where
  "Document H a =
     (case Value_FieldByIndex (rv a) (targetIndex (data a)) of
        Inl e \<Rightarrow> Inl e
      | Inr v \<Rightarrow>
         (if Value_Kind v = KPtr then
            (case Value_IsNil v of
               Inl e \<Rightarrow> Inl e
             | Inr isnil \<Rightarrow>
                (if isnil then
                   (case Value_Type v of
                      Inl e \<Rightarrow> Inl e
                    | Inr t \<Rightarrow>
                       (case Type_Elem t of
                          Inl e \<Rightarrow> Inl e
                        | Inr et \<Rightarrow>
                           (case Value_Set v (New et) of
                              Inl e \<Rightarrow> Inl e
                            | Inr v' \<Rightarrow>
                                Inr ((NewDocument v', False),
                                     a\<lparr>rv := storeAt (rv a) (targetIndex (data a)) v'\<rparr>))))
                 else
                   (let doc = NewDocument v in Inr ((doc, Persisted H doc), a))))
          else
            (case Value_Addr v of
               Inl e \<Rightarrow> Inl e
             | Inr p \<Rightarrow> (let doc = NewDocument p in Inr ((doc, Persisted H doc), a)))))"

text \<open>The store of line 95, through the pointer: the pointer now points to the slice.\<close>

fun setElem :: "Value \<Rightarrow> Value \<Rightarrow> error + Value" where
  "setElem (Val (TPtr t) (DPtr (Some c)) a) x =
     (case Value_Set (Val t c True) x of
        Inl e \<Rightarrow> Inl e
      | Inr (Val t' c' a') \<Rightarrow> Inr (Val (TPtr t) (DPtr (Some c')) a)
      | Inr Invalid \<Rightarrow> Inl (Panic ''reflect: call of reflect.Value.Set on zero Value''))"
| "setElem v x = Inl (Panic ''reflect: call of reflect.Value.Set on zero Value'')"

definition Collection :: "Association \<Rightarrow> error + (Collection \<times> bool) \<times> Association" where
  "Collection a =
     (case Value_FieldByIndex (rv a) (targetIndex (data a)) of
        Inl e \<Rightarrow> Inl e
      | Inr v \<Rightarrow>
         (case Value_IsNil v of
            Inl e \<Rightarrow> Inl e
          | Inr isnil \<Rightarrow>
             (let loaded = \<not> isnil in
              if Value_Kind v = KPtr then
                (if \<not> loaded then
                   (case Value_Type v of
                      Inl e \<Rightarrow> Inl e
                    | Inr t \<Rightarrow>
                       (case Type_Elem t of
                          Inl e \<Rightarrow> Inl e
                        | Inr et \<Rightarrow>
                           (case Value_Set v (New et) of
                              Inl e \<Rightarrow> Inl e
                            | Inr v' \<Rightarrow>
                               (case MakeSlice et of
                                  Inl e \<Rightarrow> Inl e
                                | Inr s \<Rightarrow>
                                   (case setElem v' s of
                                      Inl e \<Rightarrow> Inl e
                                    | Inr v'' \<Rightarrow>
                                        Inr ((NewCollection v'', loaded),
                                             a\<lparr>rv := storeAt (rv a) (targetIndex (data a)) v''\<rparr>))))))
                 else Inr ((NewCollection v, loaded), a))
              else
                (if \<not> loaded then
                   (case Value_Type v of
                      Inl e \<Rightarrow> Inl e
                    | Inr t \<Rightarrow>
                       (case MakeSlice t of
                          Inl e \<Rightarrow> Inl e
                        | Inr s \<Rightarrow>
                           (case Value_Set v s of
                              Inl e \<Rightarrow> Inl e
                            | Inr v' \<Rightarrow>
                               (case Value_Addr v' of
                                  Inl e \<Rightarrow> Inl e
                                | Inr p \<Rightarrow>
                                    Inr ((NewCollection p, loaded),
                                         a\<lparr>rv := storeAt (rv a) (targetIndex (data a)) v'\<rparr>)))))
                 else
                   (case Value_Addr v of
                      Inl e \<Rightarrow> Inl e
                    | Inr p \<Rightarrow> Inr ((NewCollection p, loaded), a))))))"

definition IsZero :: "'i handleEnv \<Rightarrow> Association \<Rightarrow> error + bool" where
  "IsZero H a =
     (case Value_FieldByIndex (rv a) (targetIndex (data a)) of
        Inl e \<Rightarrow> Inl e
      | Inr v \<Rightarrow>
         (case Indirect v of
            Inl e \<Rightarrow> Inl e
          | Inr w \<Rightarrow> Inr (isDeepZero H w 1)))"

definition ReferenceField :: "Association \<Rightarrow> string" where
  "ReferenceField a = referenceField (data a)"

definition ReferenceThrough :: "Association \<Rightarrow> string" where
  "ReferenceThrough a = referenceThrough (data a)"

definition ReferenceValue :: "'i handleEnv \<Rightarrow> Association \<Rightarrow> error + 'i" where
  "ReferenceValue H a =
     (case Value_Field (rv a) (referenceIndex (data a)) of
        Inl e \<Rightarrow> Inl e
      | Inr v \<Rightarrow> Inr (indirect H v))"

definition ForeignField :: "Association \<Rightarrow> string" where
  "ForeignField a = foreignField (data a)"

definition ForeignThrough :: "Association \<Rightarrow> string" where
  "ForeignThrough a = foreignThrough (data a)"

definition ForeignValue :: "'i handleEnv \<Rightarrow> Association \<Rightarrow> error + 'i" where
  "ForeignValue H a =
     (if Type a = HasMany \<or> Type a = ManyToMany
      then Inl (Panic ''cannot infer foreign value for has many or many to many association'')
      else
        (case Value_FieldByIndex (rv a) (targetIndex (data a)) of
           Inl e \<Rightarrow> Inl e
         | Inr v \<Rightarrow>
            (case (if Value_Kind v = KPtr then Value_Elem v else Inr v) of
               Inl e \<Rightarrow> Inl e
             | Inr w \<Rightarrow>
                (case Value_Field w (foreignIndex (data a)) of
                   Inl e \<Rightarrow> Inl e
                 | Inr x \<Rightarrow> Inr (indirect H x)))))"

definition Through :: "Association \<Rightarrow> string" where
  "Through a = through (data a)"

definition Autosave :: "Association \<Rightarrow> bool" where
  "Autosave a = autosave (data a)"

definition newAssociation ::
  "resolverEnv \<Rightarrow> associationCache \<Rightarrow> Value \<Rightarrow> int \<Rightarrow> (error + Association) \<times> associationCache" where
  "newAssociation E cache v pos =
     (case (if Value_Kind v = KPtr then Value_Elem v else Inr v) of
        Inl e \<Rightarrow> (Inl e, cache)
      | Inr v' \<Rightarrow>
         (case Value_Type v' of
            Inl e \<Rightarrow> (Inl e, cache)
          | Inr t \<Rightarrow>
             (case extractAssociationData E cache t pos of
                (Inl e, cache') \<Rightarrow> (Inl e, cache')
              | (Inr d, cache') \<Rightarrow> (Inr \<lparr>data = d, rv = v'\<rparr>, cache'))))"

subsection \<open>Notions used to state the properties\<close>

text \<open>
  The cache is consistent for the collaborators \<open>E\<close> when every stored
  descriptor is what resolving its key computes. The empty cache is consistent
  and \<open>extractAssociationData\<close> keeps it so.
\<close>

definition cacheOK :: "resolverEnv \<Rightarrow> associationCache \<Rightarrow> bool" where
  "cacheOK E cache = (\<forall>rt pos d. cache (rt, pos) = Some d \<longrightarrow> resolve E rt pos = Inr d)"

text \<open>A field that holds one record: a struct or a pointer to a struct.\<close>

definition isRecordField :: "rtype \<Rightarrow> bool" where
  "isRecordField t =
     (Type_Kind t = KStruct \<or>
      (Type_Kind t = KPtr \<and>
       (case Type_Elem t of Inr e \<Rightarrow> Type_Kind e = KStruct | Inl x \<Rightarrow> False)))"

text \<open>A run of resolutions, one key after the other, threading the cache.\<close>

fun resolveAll :: "resolverEnv \<Rightarrow> associationCache \<Rightarrow> associationKey list \<Rightarrow> associationCache" where
  "resolveAll E cache [] = cache"
| "resolveAll E cache ((rt, pos) # ks) = resolveAll E (snd (extractAssociationData E cache rt pos)) ks"

subsection \<open>Sample records\<close>

text \<open>
  Collaborators and record types to run the definitions on: a snake-case table
  for the names that occur, a field index built from the declared field names,
  and the types \<^verbatim>\<open>User\<close>, \<^verbatim>\<open>Address\<close>, \<^verbatim>\<open>Pet\<close>, \<^verbatim>\<open>Tag\<close> and \<^verbatim>\<open>Owner\<close>.
\<close>

definition sampleSnake :: "string \<Rightarrow> string" where
  "sampleSnake s =
     (case map_of [(''ID'', ''id''), (''Name'', ''name''), (''User'', ''user''),
                   (''UserID'', ''user_id''), (''Address'', ''address''),
                   (''Owner'', ''owner''), (''OwnerID'', ''owner_id''), (''Pet'', ''pet''),
                   (''Pets'', ''pets''), (''Tag'', ''tag''), (''Tags'', ''tags''),
                   (''Badge'', ''badge''), (''Friend'', ''friend'')] s of
        Some v \<Rightarrow> v
      | None \<Rightarrow> s)"

fun sampleIndex :: "fdecl list \<Rightarrow> int \<Rightarrow> (string \<times> int) list" where
  "sampleIndex [] i = []"
| "sampleIndex (FDecl n t tg # fs) i = (sampleSnake n, i) # sampleIndex fs (i + 1)"

fun sampleDoc :: "rtype \<Rightarrow> documentData" where
  "sampleDoc (TStruct n fs) = \<lparr>index = map_of (sampleIndex fs 0)\<rparr>"
| "sampleDoc t = \<lparr>index = Map.empty\<rparr>"

fun sampleExtract :: "rtype \<Rightarrow> bool \<Rightarrow> error + documentData" where
  "sampleExtract (TStruct n fs) skipAssoc = Inr (sampleDoc (TStruct n fs))"
| "sampleExtract t skipAssoc = Inl (Panic ''reflect: NumField of non-struct type'')"

definition sampleEnv :: resolverEnv where
  "sampleEnv = \<lparr>CamelToSnake = sampleSnake, fieldName = (\<lambda>sf. sampleSnake (sfName sf)),
                 extractDocumentData = sampleExtract\<rparr>"

definition fsUser :: "fdecl list" where
  "fsUser = [FDecl ''ID'' TInt [], FDecl ''Name'' TString []]"

definition tUser :: rtype where
  "tUser = TStruct ''User'' fsUser"

definition fsAddress :: "fdecl list" where
  "fsAddress = [FDecl ''ID'' TInt [], FDecl ''UserID'' TInt [], FDecl ''User'' (TPtr tUser) []]"

definition tAddress :: rtype where
  "tAddress = TStruct ''Address'' fsAddress"

definition fsPet :: "fdecl list" where
  "fsPet = [FDecl ''ID'' TInt [], FDecl ''OwnerID'' TInt [], FDecl ''Name'' TString []]"

definition tPet :: rtype where
  "tPet = TStruct ''Pet'' fsPet"

definition fsTag :: "fdecl list" where
  "fsTag = [FDecl ''ID'' TInt [], FDecl ''Name'' TString []]"

definition tTag :: rtype where
  "tTag = TStruct ''Tag'' fsTag"

definition fsOwner :: "fdecl list" where
  "fsOwner =
     [FDecl ''ID'' TInt [],
      FDecl ''Pet'' tPet [],
      FDecl ''Pets'' (TSlice tPet) [],
      FDecl ''Tags'' (TSlice tTag) [(''through'', ''owner_tags'')],
      FDecl ''Badge'' (TPtr tTag) [(''through'', ''owner_tags'')],
      FDecl ''Friend'' tPet [(''ref'', ''name'')],
      FDecl ''Vet'' tPet [(''ref'', ''nonexistent''), (''fk'', ''id'')],
      FDecl ''Tag'' tTag []]"

definition tOwner :: rtype where
  "tOwner = TStruct ''Owner'' fsOwner"

text \<open>The field descriptor at a position of a sample type.\<close>

definition sfAt :: "rtype \<Rightarrow> int \<Rightarrow> StructField" where
  "sfAt t i = (case Type_Field t i of Inr sf \<Rightarrow> sf
               | Inl e \<Rightarrow> \<lparr>sfName = '''', sfType = TBool, sfTag = [], sfIndex = []\<rparr>)"

text \<open>Collaborators whose field-metadata extractor always panics.\<close>

definition failingEnv :: resolverEnv where
  "failingEnv = \<lparr>CamelToSnake = (\<lambda>s. s), fieldName = sfName,
                  extractDocumentData = (\<lambda>t skipAssoc. Inl (Panic ''no field metadata''))\<rparr>"

text \<open>The descriptors that the sample fields resolve to.\<close>

definition dAddressUser :: associationData where
  "dAddressUser = \<lparr>typ = BelongsTo, targetIndex = [2], referenceField = ''user_id'',
     referenceIndex = 1, referenceThrough = '''', foreignField = ''id'', foreignIndex = 0,
     foreignThrough = '''', through = '''', autosave = False\<rparr>"

definition dOwnerPet :: associationData where
  "dOwnerPet = \<lparr>typ = HasOne, targetIndex = [1], referenceField = ''id'',
     referenceIndex = 0, referenceThrough = '''', foreignField = ''owner_id'', foreignIndex = 1,
     foreignThrough = '''', through = '''', autosave = False\<rparr>"

definition dOwnerPets :: associationData where
  "dOwnerPets = \<lparr>typ = HasMany, targetIndex = [2], referenceField = ''id'',
     referenceIndex = 0, referenceThrough = '''', foreignField = ''owner_id'', foreignIndex = 1,
     foreignThrough = '''', through = '''', autosave = False\<rparr>"

definition dOwnerTags :: associationData where
  "dOwnerTags = \<lparr>typ = ManyToMany, targetIndex = [3], referenceField = ''id'',
     referenceIndex = 0, referenceThrough = ''owner_id'', foreignField = ''id'', foreignIndex = 0,
     foreignThrough = ''tag_id'', through = ''owner_tags'', autosave = False\<rparr>"

definition dOwnerBadge :: associationData where
  "dOwnerBadge = \<lparr>typ = HasOne, targetIndex = [4], referenceField = ''id'',
     referenceIndex = 0, referenceThrough = '''', foreignField = ''id'', foreignIndex = 0,
     foreignThrough = '''', through = '''', autosave = False\<rparr>"

definition dOwnerFriend :: associationData where
  "dOwnerFriend = \<lparr>typ = HasOne, targetIndex = [5], referenceField = ''id'',
     referenceIndex = 0, referenceThrough = '''', foreignField = ''owner_id'', foreignIndex = 1,
     foreignThrough = '''', through = '''', autosave = False\<rparr>"

text \<open>Sample collaborators of the handle, and sample records.\<close>

fun samplePersisted :: "Document \<Rightarrow> bool" where
  "samplePersisted (NewDocument (Val t (DPtr (Some (DStruct (DInt k # cs)))) a)) = (k \<noteq> 0)"
| "samplePersisted d = False"

fun sampleIndirect :: "Value \<Rightarrow> content option" where
  "sampleIndirect (Val (TPtr t) (DPtr p) a) = p"
| "sampleIndirect (Val t c a) = Some c"
| "sampleIndirect Invalid = None"

fun sampleDeepZero :: "Value \<Rightarrow> int \<Rightarrow> bool" where
  "sampleDeepZero (Val t c a) depth = (c = Zero t)"
| "sampleDeepZero Invalid depth = True"

definition sampleHandleEnv :: "content option handleEnv" where
  "sampleHandleEnv = \<lparr>Persisted = samplePersisted, isDeepZero = sampleDeepZero,
                       indirect = sampleIndirect\<rparr>"

text \<open>An address whose user pointer is nil, and one whose user is set.\<close>

definition csAddress :: "content list" where
  "csAddress = [DInt 3, DInt 0, DPtr None]"

definition vAddress :: Value where
  "vAddress = Val (TPtr tAddress) (DPtr (Some (DStruct csAddress))) False"

definition hAddressUser :: Association where
  "hAddressUser = \<lparr>data = dAddressUser, rv = Val tAddress (DStruct csAddress) True\<rparr>"

definition csAddressSet :: "content list" where
  "csAddressSet = [DInt 3, DInt 2, DPtr (Some (DStruct [DInt 2, DString ''ann'']))]"

definition vAddressSet :: Value where
  "vAddressSet = Val (TPtr tAddress) (DPtr (Some (DStruct csAddressSet))) False"

definition hAddressUserSet :: Association where
  "hAddressUserSet = \<lparr>data = dAddressUser, rv = Val tAddress (DStruct csAddressSet) True\<rparr>"

text \<open>An owner with a pet; every other association of the owner is zero.\<close>

definition csOwner :: "content list" where
  "csOwner = [DInt 1, DStruct [DInt 7, DInt 1, DString ''rex''], DSlice None, DSlice None,
              DPtr None, DStruct [DInt 0, DInt 0, DString ''''],
              DStruct [DInt 0, DInt 0, DString ''''], DStruct [DInt 0, DString '''']]"

definition vOwner :: Value where
  "vOwner = Val (TPtr tOwner) (DPtr (Some (DStruct csOwner))) False"

definition hOwnerPet :: Association where
  "hOwnerPet = \<lparr>data = dOwnerPet, rv = Val tOwner (DStruct csOwner) True\<rparr>"

definition hOwnerPets :: Association where
  "hOwnerPets = \<lparr>data = dOwnerPets, rv = Val tOwner (DStruct csOwner) True\<rparr>"

definition hOwnerFriend :: Association where
  "hOwnerFriend = \<lparr>data = dOwnerFriend, rv = Val tOwner (DStruct csOwner) True\<rparr>"

definition hOwnerBadge :: Association where
  "hOwnerBadge = \<lparr>data = dOwnerBadge, rv = Val tOwner (DStruct csOwner) True\<rparr>"

section \<open>Properties\<close>

subsection \<open>The cache\<close>

lemma cacheOK_empty: "cacheOK E Map.empty"
  by (simp add: cacheOK_def)

lemma extract_fst: "cacheOK E cache \<Longrightarrow> fst (extractAssociationData E cache rt pos) = resolve E rt pos"
  by (auto simp: cacheOK_def extractAssociationData_def Let_def split: option.splits sum.splits if_splits)

lemma extract_cacheOK: "cacheOK E cache \<Longrightarrow> cacheOK E (snd (extractAssociationData E cache rt pos))"
  by (auto simp: cacheOK_def extractAssociationData_def Let_def split: option.splits sum.splits if_splits)

lemma resolveAll_cacheOK: "cacheOK E cache \<Longrightarrow> cacheOK E (resolveAll E cache ks)"
proof (induction ks arbitrary: cache)
  case Nil
  then show ?case by simp
next
  case (Cons key ks)
  obtain rt pos where key: "key = (rt, pos)" by (cases key)
  from Cons.prems have "cacheOK E (snd (extractAssociationData E cache rt pos))"
    by (rule extract_cacheOK)
  then show ?case unfolding key by (simp add: Cons.IH)
qed

subsection \<open>Unfolding the resolver\<close>

lemma getAssocField_empty: "Tag_Get tg k = '''' \<Longrightarrow> getAssocField tg k = ('''', '''')"
  by (simp add: getAssocField_def)

lemma resolve_unfold:
  assumes "Type_Field rt pos = Inr sf"
    and "extractDocumentData E rt True = Inr rd"
    and "extractDocumentData E (unwrap (sfType sf)) True = Inr fd"
    and "guessKeys E rt (unwrap (sfType sf)) rd (fieldName E sf) (Tag_Get (sfTag sf) ''through'')
           (getAssocField (sfTag sf) ''ref'') (getAssocField (sfTag sf) ''fk'') = (ref, fk, rT, fT)"
  shows "resolve E rt pos =
     (case lookupKeys rd fd ref fk
        \<lparr>typ = BelongsTo, targetIndex = sfIndex sf,
                referenceField = '''', referenceIndex = 0, referenceThrough = '''',
                foreignField = '''', foreignIndex = 0, foreignThrough = '''',
                through = '''', autosave = (Tag_Get (sfTag sf) ''autosave'' = ''true'')\<rparr> of
        Inl e \<Rightarrow> Inl e
      | Inr d' \<Rightarrow> Inr (guessType sf (Tag_Get (sfTag sf) ''through'') rT fT d'))"
  using assms by (simp add: resolve_def Let_def)

lemma resolve_Inr_cases:
  assumes "resolve E rt pos = Inr d"
  obtains sf rd fd ref fk rT fT rid fid where
    "Type_Field rt pos = Inr sf"
    "extractDocumentData E rt True = Inr rd"
    "extractDocumentData E (unwrap (sfType sf)) True = Inr fd"
    "guessKeys E rt (unwrap (sfType sf)) rd (fieldName E sf) (Tag_Get (sfTag sf) ''through'')
           (getAssocField (sfTag sf) ''ref'') (getAssocField (sfTag sf) ''fk'') = (ref, fk, rT, fT)"
    "index rd ref = Some rid" "index fd fk = Some fid"
    "d = guessType sf (Tag_Get (sfTag sf) ''through'') rT fT
        \<lparr>typ = BelongsTo, targetIndex = sfIndex sf,
                referenceField = ref, referenceIndex = rid, referenceThrough = '''',
                foreignField = fk, foreignIndex = fid, foreignThrough = '''',
                through = '''', autosave = (Tag_Get (sfTag sf) ''autosave'' = ''true'')\<rparr>"
  using assms
  by (auto simp: resolve_def Let_def lookupKeys_def split: sum.splits prod.splits option.splits)

lemma isRecordField_not_slice: "isRecordField t \<Longrightarrow> \<not> isSliceField t"
  by (cases t) (auto simp: isRecordField_def isSliceField_def split: sum.splits)

lemma guessType_fields [simp]:
  "referenceField (guessType sf thr rT fT d) = referenceField d"
  "foreignField (guessType sf thr rT fT d) = foreignField d"
  "referenceIndex (guessType sf thr rT fT d) = referenceIndex d"
  "foreignIndex (guessType sf thr rT fT d) = foreignIndex d"
  "targetIndex (guessType sf thr rT fT d) = targetIndex d"
  "autosave (guessType sf thr rT fT d) = autosave d"
  by (simp_all add: guessType_def)

lemma extract_keeps_entry:
  "cache k = Some d \<Longrightarrow> snd (extractAssociationData E cache rt pos) k = Some d"
  by (auto simp: extractAssociationData_def Let_def split: option.splits sum.splits)

lemma resolveAll_keeps_entry:
  "cache k = Some d \<Longrightarrow> resolveAll E cache ks k = Some d"
proof (induction ks arbitrary: cache)
  case Nil
  then show ?case by simp
next
  case (Cons key ks)
  obtain rt pos where key: "key = (rt, pos)" by (cases key)
  from Cons.prems have "snd (extractAssociationData E cache rt pos) k = Some d"
    by (rule extract_keeps_entry)
  then show ?case unfolding key by (simp add: Cons.IH)
qed

lemma extract_stores:
  "extractAssociationData E cache rt pos = (Inr d, cache') \<Longrightarrow> cache' (rt, pos) = Some d"
  by (auto simp: extractAssociationData_def Let_def split: option.splits sum.splits)

lemma extract_hit:
  "cache (rt, pos) = Some d \<Longrightarrow> extractAssociationData E cache rt pos = (Inr d, cache)"
  by (simp add: extractAssociationData_def)

lemma target_field:
  assumes "rv a = Val (TStruct n fs) (DStruct cs) ad"
    and "targetIndex (data a) = [i]"
    and "0 \<le> i" and "i < int (length fs)" and "length cs = length fs"
    and "fs ! nat i = FDecl fn ft tg"
  shows "Value_FieldByIndex (rv a) (targetIndex (data a)) = Inr (Val ft (cs ! nat i) ad)"
  using assms by (simp add: Value_FieldByIndex_def)

subsection \<open>The sample records, evaluated\<close>

lemma sample_fields:
  "Type_Field tAddress 2 = Inr (sfAt tAddress 2)"
  "Type_Field tOwner 1 = Inr (sfAt tOwner 1)"
  "Type_Field tOwner 2 = Inr (sfAt tOwner 2)"
  "Type_Field tOwner 3 = Inr (sfAt tOwner 3)"
  "Type_Field tOwner 4 = Inr (sfAt tOwner 4)"
  "Type_Field tOwner 5 = Inr (sfAt tOwner 5)"
  "Type_Field tOwner 6 = Inr (sfAt tOwner 6)"
  "Type_Field tOwner 7 = Inr (sfAt tOwner 7)"
  by (simp_all add: sfAt_def tAddress_def tOwner_def fsAddress_def fsOwner_def)

lemma sample_extract:
  "extractDocumentData sampleEnv tAddress True = Inr (sampleDoc tAddress)"
  "extractDocumentData sampleEnv tOwner True = Inr (sampleDoc tOwner)"
  "extractDocumentData sampleEnv tPet True = Inr (sampleDoc tPet)"
  "extractDocumentData sampleEnv tTag True = Inr (sampleDoc tTag)"
  by (simp_all add: sampleEnv_def tAddress_def tOwner_def tPet_def tTag_def)

lemma sample_resolve:
  "fst (extractAssociationData sampleEnv Map.empty tAddress 2) = Inr dAddressUser"
  "fst (extractAssociationData sampleEnv Map.empty tOwner 1) = Inr dOwnerPet"
  "fst (extractAssociationData sampleEnv Map.empty tOwner 2) = Inr dOwnerPets"
  "fst (extractAssociationData sampleEnv Map.empty tOwner 3) = Inr dOwnerTags"
  "fst (extractAssociationData sampleEnv Map.empty tOwner 4) = Inr dOwnerBadge"
  "fst (extractAssociationData sampleEnv Map.empty tOwner 5) = Inr dOwnerFriend"
  by code_simp+

lemma sample_handles:
  "fst (newAssociation sampleEnv Map.empty vAddress 2) = Inr hAddressUser"
  "fst (newAssociation sampleEnv Map.empty vAddressSet 2) = Inr hAddressUserSet"
  "fst (newAssociation sampleEnv Map.empty vOwner 1) = Inr hOwnerPet"
  "fst (newAssociation sampleEnv Map.empty vOwner 2) = Inr hOwnerPets"
  "fst (newAssociation sampleEnv Map.empty vOwner 4) = Inr hOwnerBadge"
  "fst (newAssociation sampleEnv Map.empty vOwner 5) = Inr hOwnerFriend"
  by code_simp+

subsection \<open>The resolver\<close>

text \<open>
  Claim C1 (belongs-to inference). Take a field with no \<^verbatim>\<open>ref\<close>, \<^verbatim>\<open>fk\<close> or
  \<^verbatim>\<open>through\<close> tag whose type is a record or a pointer to a record, on a host
  type whose field index has the name \<open>fieldName @ ''_id''\<close>. Whenever the
  field resolves, the descriptor has type \<open>BelongsTo\<close>, reference field
  \<open>fieldName @ ''_id''\<close> and foreign field \<open>''id''\<close>.
\<close>

theorem belongs_to_inference:
  assumes "cacheOK E cache"
    and "Type_Field rt pos = Inr sf"
    and "Tag_Get (sfTag sf) ''ref'' = ''''" and "Tag_Get (sfTag sf) ''fk'' = ''''"
    and "Tag_Get (sfTag sf) ''through'' = ''''"
    and "isRecordField (sfType sf)"
    and "extractDocumentData E rt True = Inr rd"
    and "index rd (fieldName E sf @ ''_id'') \<noteq> None"
    and "fst (extractAssociationData E cache rt pos) = Inr d"
  shows "typ d = BelongsTo \<and> referenceField d = fieldName E sf @ ''_id'' \<and> foreignField d = ''id''"
proof -
  from assms(1,9) have "resolve E rt pos = Inr d" by (simp add: extract_fst)
  then obtain sf' rd' ref fk rT fT rid fid where
    sf': "Type_Field rt pos = Inr sf'" and rd': "extractDocumentData E rt True = Inr rd'"
    and gk: "guessKeys E rt (unwrap (sfType sf')) rd' (fieldName E sf') (Tag_Get (sfTag sf') ''through'')
           (getAssocField (sfTag sf') ''ref'') (getAssocField (sfTag sf') ''fk'') = (ref, fk, rT, fT)"
    and d: "d = guessType sf' (Tag_Get (sfTag sf') ''through'') rT fT
        \<lparr>typ = BelongsTo, targetIndex = sfIndex sf',
                referenceField = ref, referenceIndex = rid, referenceThrough = '''',
                foreignField = fk, foreignIndex = fid, foreignThrough = '''',
                through = '''', autosave = (Tag_Get (sfTag sf') ''autosave'' = ''true'')\<rparr>"
    by (rule resolve_Inr_cases)
  from sf' rd' assms(2,7) have eq: "sf' = sf" "rd' = rd" by simp_all
  from gk assms(3,4,5,8) have keys: "ref = fieldName E sf @ ''_id''" "fk = ''id''"
    by (auto simp: eq guessKeys_def getAssocField_empty)
  from assms(6) have "\<not> isSliceField (sfType sf)" by (rule isRecordField_not_slice)
  with d keys show ?thesis by (simp add: eq guessType_def)
qed

theorem belongs_to_inference_witness:
  "fst (extractAssociationData sampleEnv Map.empty tAddress 2) = Inr dAddressUser \<and>
   typ dAddressUser = BelongsTo \<and> referenceField dAddressUser = ''user_id'' \<and>
   foreignField dAddressUser = ''id''"
proof -
  have tags: "Tag_Get (sfTag (sfAt tAddress 2)) ''ref'' = ''''"
    "Tag_Get (sfTag (sfAt tAddress 2)) ''fk'' = ''''"
    "Tag_Get (sfTag (sfAt tAddress 2)) ''through'' = ''''"
    by code_simp+
  have rec: "isRecordField (sfType (sfAt tAddress 2))" by code_simp
  have has: "index (sampleDoc tAddress) (fieldName sampleEnv (sfAt tAddress 2) @ ''_id'') \<noteq> None"
    by code_simp
  have name: "fieldName sampleEnv (sfAt tAddress 2) @ ''_id'' = ''user_id''" by code_simp
  from belongs_to_inference [OF cacheOK_empty sample_fields(1) tags rec sample_extract(1) has
      sample_resolve(1)] name sample_resolve(1)
  show ?thesis by simp
qed

text \<open>
  Claim C2 (has-one fallback). The same field on a host type whose field index
  lacks the name \<open>fieldName @ ''_id''\<close> resolves to type \<open>HasOne\<close>, reference
  field \<open>''id''\<close> and foreign field the snake-case name of the host type followed
  by \<open>''_id''\<close>.
\<close>

theorem has_one_fallback:
  assumes "cacheOK E cache"
    and "Type_Field rt pos = Inr sf"
    and "Tag_Get (sfTag sf) ''ref'' = ''''" and "Tag_Get (sfTag sf) ''fk'' = ''''"
    and "Tag_Get (sfTag sf) ''through'' = ''''"
    and "isRecordField (sfType sf)"
    and "extractDocumentData E rt True = Inr rd"
    and "index rd (fieldName E sf @ ''_id'') = None"
    and "fst (extractAssociationData E cache rt pos) = Inr d"
  shows "typ d = HasOne \<and> referenceField d = ''id'' \<and>
         foreignField d = CamelToSnake E (Type_Name rt) @ ''_id''"
proof -
  from assms(1,9) have "resolve E rt pos = Inr d" by (simp add: extract_fst)
  then obtain sf' rd' ref fk rT fT rid fid where
    sf': "Type_Field rt pos = Inr sf'" and rd': "extractDocumentData E rt True = Inr rd'"
    and gk: "guessKeys E rt (unwrap (sfType sf')) rd' (fieldName E sf') (Tag_Get (sfTag sf') ''through'')
           (getAssocField (sfTag sf') ''ref'') (getAssocField (sfTag sf') ''fk'') = (ref, fk, rT, fT)"
    and d: "d = guessType sf' (Tag_Get (sfTag sf') ''through'') rT fT
        \<lparr>typ = BelongsTo, targetIndex = sfIndex sf',
                referenceField = ref, referenceIndex = rid, referenceThrough = '''',
                foreignField = fk, foreignIndex = fid, foreignThrough = '''',
                through = '''', autosave = (Tag_Get (sfTag sf') ''autosave'' = ''true'')\<rparr>"
    by (rule resolve_Inr_cases)
  from sf' rd' assms(2,7) have eq: "sf' = sf" "rd' = rd" by simp_all
  from gk assms(3,4,5,8) have keys: "ref = ''id''" "fk = CamelToSnake E (Type_Name rt) @ ''_id''"
    by (auto simp: eq guessKeys_def getAssocField_empty)
  from assms(6) have "\<not> isSliceField (sfType sf)" by (rule isRecordField_not_slice)
  with d keys show ?thesis by (simp add: eq guessType_def)
qed

theorem has_one_fallback_witness:
  "fst (extractAssociationData sampleEnv Map.empty tOwner 1) = Inr dOwnerPet \<and>
   typ dOwnerPet = HasOne \<and> referenceField dOwnerPet = ''id'' \<and>
   foreignField dOwnerPet = ''owner_id''"
proof -
  have tags: "Tag_Get (sfTag (sfAt tOwner 1)) ''ref'' = ''''"
    "Tag_Get (sfTag (sfAt tOwner 1)) ''fk'' = ''''"
    "Tag_Get (sfTag (sfAt tOwner 1)) ''through'' = ''''"
    by code_simp+
  have rec: "isRecordField (sfType (sfAt tOwner 1))" by code_simp
  have lacks: "index (sampleDoc tOwner) (fieldName sampleEnv (sfAt tOwner 1) @ ''_id'') = None"
    by code_simp
  have name: "CamelToSnake sampleEnv (Type_Name tOwner) @ ''_id'' = ''owner_id''" by code_simp
  from has_one_fallback [OF cacheOK_empty sample_fields(2) tags rec sample_extract(2) lacks
      sample_resolve(2)] name sample_resolve(2)
  show ?thesis by simp
qed

text \<open>
  Claim C3 (many-to-many and has-many inference). A sequence-typed field with a
  \<^verbatim>\<open>through\<close> tag and no \<^verbatim>\<open>ref\<close> or \<^verbatim>\<open>fk\<close> tag resolves to type
  \<open>ManyToMany\<close>, with the tag's value as the through table and the snake-case
  names of the host type and of the target type, each followed by \<open>''_id''\<close>, as
  the two through keys. A sequence-typed field without a \<^verbatim>\<open>through\<close> tag
  resolves to \<open>HasMany\<close>.
\<close>

theorem sequence_inference:
  assumes "cacheOK E cache"
    and "Type_Field rt pos = Inr sf"
    and "isSliceField (sfType sf)"
    and "fst (extractAssociationData E cache rt pos) = Inr d"
  shows "(Tag_Get (sfTag sf) ''through'' \<noteq> '''' \<and>
          Tag_Get (sfTag sf) ''ref'' = '''' \<and> Tag_Get (sfTag sf) ''fk'' = '''' \<longrightarrow>
            typ d = ManyToMany \<and> through d = Tag_Get (sfTag sf) ''through'' \<and>
            referenceThrough d = CamelToSnake E (Type_Name rt) @ ''_id'' \<and>
            foreignThrough d = CamelToSnake E (Type_Name (unwrap (sfType sf))) @ ''_id'') \<and>
         (Tag_Get (sfTag sf) ''through'' = '''' \<longrightarrow> typ d = HasMany)"
proof -
  from assms(1,4) have "resolve E rt pos = Inr d" by (simp add: extract_fst)
  then obtain sf' rd ref fk rT fT rid fid where
    sf': "Type_Field rt pos = Inr sf'"
    and gk: "guessKeys E rt (unwrap (sfType sf')) rd (fieldName E sf') (Tag_Get (sfTag sf') ''through'')
           (getAssocField (sfTag sf') ''ref'') (getAssocField (sfTag sf') ''fk'') = (ref, fk, rT, fT)"
    and d: "d = guessType sf' (Tag_Get (sfTag sf') ''through'') rT fT
        \<lparr>typ = BelongsTo, targetIndex = sfIndex sf',
                referenceField = ref, referenceIndex = rid, referenceThrough = '''',
                foreignField = fk, foreignIndex = fid, foreignThrough = '''',
                through = '''', autosave = (Tag_Get (sfTag sf') ''autosave'' = ''true'')\<rparr>"
    by (rule resolve_Inr_cases)
  from sf' assms(2) have eq: "sf' = sf" by simp
  have many: "Tag_Get (sfTag sf) ''through'' = '''' \<Longrightarrow> typ d = HasMany"
    using d assms(3) by (simp add: eq guessType_def)
  have m2m: "typ d = ManyToMany \<and> through d = Tag_Get (sfTag sf) ''through'' \<and>
            referenceThrough d = CamelToSnake E (Type_Name rt) @ ''_id'' \<and>
            foreignThrough d = CamelToSnake E (Type_Name (unwrap (sfType sf))) @ ''_id''"
    if "Tag_Get (sfTag sf) ''through'' \<noteq> ''''" "Tag_Get (sfTag sf) ''ref'' = ''''"
       "Tag_Get (sfTag sf) ''fk'' = ''''"
  proof -
    from gk that have "rT = CamelToSnake E (Type_Name rt) @ ''_id''"
      "fT = CamelToSnake E (Type_Name (unwrap (sfType sf))) @ ''_id''"
      by (auto simp: eq guessKeys_def getAssocField_empty)
    with d that(1) assms(3) show ?thesis by (simp add: eq guessType_def)
  qed
  from many m2m show ?thesis by blast
qed

theorem sequence_inference_witness:
  "fst (extractAssociationData sampleEnv Map.empty tOwner 3) = Inr dOwnerTags \<and>
   typ dOwnerTags = ManyToMany \<and> through dOwnerTags = ''owner_tags'' \<and>
   referenceThrough dOwnerTags = ''owner_id'' \<and> foreignThrough dOwnerTags = ''tag_id'' \<and>
   fst (extractAssociationData sampleEnv Map.empty tOwner 2) = Inr dOwnerPets \<and>
   typ dOwnerPets = HasMany"
proof -
  have slice: "isSliceField (sfType (sfAt tOwner 3))" "isSliceField (sfType (sfAt tOwner 2))"
    by code_simp+
  have tags: "Tag_Get (sfTag (sfAt tOwner 3)) ''through'' = ''owner_tags''"
    "Tag_Get (sfTag (sfAt tOwner 3)) ''ref'' = ''''"
    "Tag_Get (sfTag (sfAt tOwner 3)) ''fk'' = ''''"
    "Tag_Get (sfTag (sfAt tOwner 2)) ''through'' = ''''"
    by code_simp+
  have names: "CamelToSnake sampleEnv (Type_Name tOwner) @ ''_id'' = ''owner_id''"
    "CamelToSnake sampleEnv (Type_Name (unwrap (sfType (sfAt tOwner 3)))) @ ''_id'' = ''tag_id''"
    by code_simp+
  from sequence_inference [OF cacheOK_empty sample_fields(4) slice(1) sample_resolve(4)]
    sequence_inference [OF cacheOK_empty sample_fields(3) slice(2) sample_resolve(3)]
    tags names sample_resolve(3,4)
  show ?thesis by simp
qed

text \<open>
  Claim C4 (missing-field failure). For a field position of the host type, with
  the field indexes of host and target at hand, let \<open>ref\<close> and \<open>fk\<close> be the
  reference and foreign key after the guessing step. Resolution panics with a
  message that names \<open>ref\<close> when the host's index lacks \<open>ref\<close>, panics with a
  message that names \<open>fk\<close> when the host's index has \<open>ref\<close> and the target's
  index lacks \<open>fk\<close>, and succeeds with these two keys when both are present.
\<close>

theorem missing_field_failure:
  assumes "cacheOK E cache"
    and "Type_Field rt pos = Inr sf"
    and "extractDocumentData E rt True = Inr rd"
    and "extractDocumentData E (unwrap (sfType sf)) True = Inr fd"
    and "guessKeys E rt (unwrap (sfType sf)) rd (fieldName E sf) (Tag_Get (sfTag sf) ''through'')
           (getAssocField (sfTag sf) ''ref'') (getAssocField (sfTag sf) ''fk'') = (ref, fk, rT, fT)"
  shows "(index rd ref = None \<longrightarrow>
            fst (extractAssociationData E cache rt pos) =
              Inl (Panic (''rel: references ('' @ ref @ '') field not found ''))) \<and>
         (index rd ref \<noteq> None \<and> index fd fk = None \<longrightarrow>
            fst (extractAssociationData E cache rt pos) =
              Inl (Panic (''rel: foreign_key ('' @ fk @ '') field not found''))) \<and>
         (index rd ref \<noteq> None \<and> index fd fk \<noteq> None \<longrightarrow>
            (\<exists>d. fst (extractAssociationData E cache rt pos) = Inr d \<and>
                 referenceField d = ref \<and> foreignField d = fk))"
proof -
  have "fst (extractAssociationData E cache rt pos) = resolve E rt pos"
    using assms(1) by (rule extract_fst)
  also note resolve_unfold [OF assms(2-5)]
  finally show ?thesis
    by (auto simp: lookupKeys_def split: option.splits)
qed

theorem missing_field_failure_witness:
  "fst (extractAssociationData sampleEnv Map.empty tOwner 6) =
     Inl (Panic ''rel: references (nonexistent) field not found '') \<and>
   fst (extractAssociationData sampleEnv Map.empty tOwner 7) =
     Inl (Panic ''rel: foreign_key (owner_id) field not found'') \<and>
   fst (extractAssociationData sampleEnv Map.empty tOwner 1) = Inr dOwnerPet \<and>
   referenceField dOwnerPet = ''id'' \<and> foreignField dOwnerPet = ''owner_id''"
proof -
  have target: "extractDocumentData sampleEnv (unwrap (sfType (sfAt tOwner 6))) True = Inr (sampleDoc tPet)"
    "extractDocumentData sampleEnv (unwrap (sfType (sfAt tOwner 7))) True = Inr (sampleDoc tTag)"
    "extractDocumentData sampleEnv (unwrap (sfType (sfAt tOwner 1))) True = Inr (sampleDoc tPet)"
    by (simp_all add: sampleEnv_def sfAt_def tOwner_def fsOwner_def tPet_def tTag_def)
  have keys6: "guessKeys sampleEnv tOwner (unwrap (sfType (sfAt tOwner 6))) (sampleDoc tOwner)
      (fieldName sampleEnv (sfAt tOwner 6)) (Tag_Get (sfTag (sfAt tOwner 6)) ''through'')
      (getAssocField (sfTag (sfAt tOwner 6)) ''ref'') (getAssocField (sfTag (sfAt tOwner 6)) ''fk'') =
      (''nonexistent'', ''id'', '''', '''')"
    by code_simp
  have keys7: "guessKeys sampleEnv tOwner (unwrap (sfType (sfAt tOwner 7))) (sampleDoc tOwner)
      (fieldName sampleEnv (sfAt tOwner 7)) (Tag_Get (sfTag (sfAt tOwner 7)) ''through'')
      (getAssocField (sfTag (sfAt tOwner 7)) ''ref'') (getAssocField (sfTag (sfAt tOwner 7)) ''fk'') =
      (''id'', ''owner_id'', '''', '''')"
    by code_simp
  have keys1: "guessKeys sampleEnv tOwner (unwrap (sfType (sfAt tOwner 1))) (sampleDoc tOwner)
      (fieldName sampleEnv (sfAt tOwner 1)) (Tag_Get (sfTag (sfAt tOwner 1)) ''through'')
      (getAssocField (sfTag (sfAt tOwner 1)) ''ref'') (getAssocField (sfTag (sfAt tOwner 1)) ''fk'') =
      (''id'', ''owner_id'', '''', '''')"
    by code_simp
  have idx: "index (sampleDoc tOwner) ''nonexistent'' = None"
    "index (sampleDoc tOwner) ''id'' \<noteq> None"
    "index (sampleDoc tTag) ''owner_id'' = None"
    "index (sampleDoc tPet) ''owner_id'' \<noteq> None"
    by code_simp+
  from missing_field_failure [OF cacheOK_empty sample_fields(7) sample_extract(2) target(1) keys6]
    missing_field_failure [OF cacheOK_empty sample_fields(8) sample_extract(2) target(2) keys7]
    missing_field_failure [OF cacheOK_empty sample_fields(2) sample_extract(2) target(3) keys1]
    idx sample_resolve(2)
  show ?thesis by auto
qed

text \<open>
  Claim C9 (through names only for many-to-many). A resolved descriptor whose
  type is not \<open>ManyToMany\<close> has an empty through table and empty through keys,
  whatever the tags of the field are.
\<close>

theorem through_only_many_to_many:
  assumes "cacheOK E cache"
    and "fst (extractAssociationData E cache rt pos) = Inr d"
    and "typ d \<noteq> ManyToMany"
  shows "through d = '''' \<and> referenceThrough d = '''' \<and> foreignThrough d = ''''"
proof -
  from assms(1,2) have "resolve E rt pos = Inr d" by (simp add: extract_fst)
  then obtain sf rT fT ref fk rid fid where
    d: "d = guessType sf (Tag_Get (sfTag sf) ''through'') rT fT
        \<lparr>typ = BelongsTo, targetIndex = sfIndex sf,
                referenceField = ref, referenceIndex = rid, referenceThrough = '''',
                foreignField = fk, foreignIndex = fid, foreignThrough = '''',
                through = '''', autosave = (Tag_Get (sfTag sf) ''autosave'' = ''true'')\<rparr>"
    by (rule resolve_Inr_cases)
  with assms(3) show ?thesis
    by (auto simp: guessType_def split: if_splits)
qed

theorem through_only_many_to_many_witness:
  "Tag_Get (sfTag (sfAt tOwner 4)) ''through'' = ''owner_tags'' \<and>
   fst (extractAssociationData sampleEnv Map.empty tOwner 4) = Inr dOwnerBadge \<and>
   typ dOwnerBadge = HasOne \<and>
   through dOwnerBadge = '''' \<and> referenceThrough dOwnerBadge = '''' \<and>
   foreignThrough dOwnerBadge = ''''"
proof -
  have tag: "Tag_Get (sfTag (sfAt tOwner 4)) ''through'' = ''owner_tags''" by code_simp
  have ty: "typ dOwnerBadge = HasOne" by code_simp
  then have "typ dOwnerBadge \<noteq> ManyToMany" by simp
  from through_only_many_to_many [OF cacheOK_empty sample_resolve(5) this] tag ty sample_resolve(5)
  show ?thesis by simp
qed

text \<open>
  Claim C10 (a one-sided key tag is discarded). When exactly one of the
  \<^verbatim>\<open>ref\<close> and \<^verbatim>\<open>fk\<close> tags gives a key, the guessing step runs and sets both
  keys: the resolved descriptor has the inferred pair of keys, in which the
  tag's value does not occur unless it is the inferred name.
\<close>

theorem one_sided_tag_discarded:
  assumes "cacheOK E cache"
    and "Type_Field rt pos = Inr sf"
    and "(fst (getAssocField (sfTag sf) ''ref'') = '''') \<noteq> (fst (getAssocField (sfTag sf) ''fk'') = '''')"
    and "extractDocumentData E rt True = Inr rd"
    and "fst (extractAssociationData E cache rt pos) = Inr d"
  shows "(referenceField d, foreignField d) =
           (if Tag_Get (sfTag sf) ''through'' \<noteq> '''' then (''id'', ''id'')
            else if index rd (fieldName E sf @ ''_id'') \<noteq> None
                 then (fieldName E sf @ ''_id'', ''id'')
                 else (''id'', CamelToSnake E (Type_Name rt) @ ''_id''))"
proof -
  from assms(1,5) have "resolve E rt pos = Inr d" by (simp add: extract_fst)
  then obtain sf' rd' ref fk rT fT rid fid where
    sf': "Type_Field rt pos = Inr sf'" and rd': "extractDocumentData E rt True = Inr rd'"
    and gk: "guessKeys E rt (unwrap (sfType sf')) rd' (fieldName E sf') (Tag_Get (sfTag sf') ''through'')
           (getAssocField (sfTag sf') ''ref'') (getAssocField (sfTag sf') ''fk'') = (ref, fk, rT, fT)"
    and d: "d = guessType sf' (Tag_Get (sfTag sf') ''through'') rT fT
        \<lparr>typ = BelongsTo, targetIndex = sfIndex sf',
                referenceField = ref, referenceIndex = rid, referenceThrough = '''',
                foreignField = fk, foreignIndex = fid, foreignThrough = '''',
                through = '''', autosave = (Tag_Get (sfTag sf') ''autosave'' = ''true'')\<rparr>"
    by (rule resolve_Inr_cases)
  from sf' rd' assms(2,4) have eq: "sf' = sf" "rd' = rd" by simp_all
  from assms(3) have "fst (getAssocField (sfTag sf) ''ref'') = '''' \<or> fst (getAssocField (sfTag sf) ''fk'') = ''''"
    by blast
  with gk have "(ref, fk) =
           (if Tag_Get (sfTag sf) ''through'' \<noteq> '''' then (''id'', ''id'')
            else if index rd (fieldName E sf @ ''_id'') \<noteq> None
                 then (fieldName E sf @ ''_id'', ''id'')
                 else (''id'', CamelToSnake E (Type_Name rt) @ ''_id''))"
    by (auto simp: eq guessKeys_def split: prod.splits if_splits)
  with d show ?thesis by simp
qed

theorem one_sided_tag_discarded_witness:
  "fst (getAssocField (sfTag (sfAt tOwner 5)) ''ref'') = ''name'' \<and>
   fst (getAssocField (sfTag (sfAt tOwner 5)) ''fk'') = '''' \<and>
   fst (extractAssociationData sampleEnv Map.empty tOwner 5) = Inr dOwnerFriend \<and>
   (referenceField dOwnerFriend, foreignField dOwnerFriend) = (''id'', ''owner_id'')"
proof -
  have tags: "fst (getAssocField (sfTag (sfAt tOwner 5)) ''ref'') = ''name''"
    "fst (getAssocField (sfTag (sfAt tOwner 5)) ''fk'') = ''''"
    by code_simp+
  then have one: "(fst (getAssocField (sfTag (sfAt tOwner 5)) ''ref'') = '''') \<noteq>
                  (fst (getAssocField (sfTag (sfAt tOwner 5)) ''fk'') = '''')"
    by simp
  have rhs: "(if Tag_Get (sfTag (sfAt tOwner 5)) ''through'' \<noteq> '''' then (''id'', ''id'')
            else if index (sampleDoc tOwner) (fieldName sampleEnv (sfAt tOwner 5) @ ''_id'') \<noteq> None
                 then (fieldName sampleEnv (sfAt tOwner 5) @ ''_id'', ''id'')
                 else (''id'', CamelToSnake sampleEnv (Type_Name tOwner) @ ''_id'')) =
             (''id'', ''owner_id'')"
    by code_simp
  from one_sided_tag_discarded [OF cacheOK_empty sample_fields(6) one sample_extract(2)
      sample_resolve(6)] rhs tags sample_resolve(6)
  show ?thesis by simp
qed

text \<open>
  Claim C7 (determinism and cache reuse). Once a key has resolved to a
  descriptor, every later resolution of that key, after any run of further
  resolutions, returns the same descriptor and leaves the cache as it is. It
  does so whatever the collaborators are, so nothing is inferred again.
\<close>

theorem resolution_cached:
  assumes "extractAssociationData E cache rt pos = (Inr d, cache')"
  shows "extractAssociationData E' (resolveAll E cache' ks) rt pos = (Inr d, resolveAll E cache' ks)"
proof -
  from assms have "cache' (rt, pos) = Some d" by (rule extract_stores)
  then have "resolveAll E cache' ks (rt, pos) = Some d" by (rule resolveAll_keeps_entry)
  then show ?thesis by (rule extract_hit)
qed

theorem resolution_cached_witness:
  "fst (extractAssociationData sampleEnv Map.empty tAddress 2) = Inr dAddressUser \<and>
   extractAssociationData failingEnv
     (resolveAll sampleEnv (snd (extractAssociationData sampleEnv Map.empty tAddress 2))
        [(tOwner, 1), (tOwner, 6), (tAddress, 2)]) tAddress 2 =
   (Inr dAddressUser,
    resolveAll sampleEnv (snd (extractAssociationData sampleEnv Map.empty tAddress 2))
        [(tOwner, 1), (tOwner, 6), (tAddress, 2)])"
proof -
  have first: "extractAssociationData sampleEnv Map.empty tAddress 2 =
      (Inr dAddressUser, snd (extractAssociationData sampleEnv Map.empty tAddress 2))"
    using sample_resolve(1) by (simp add: prod_eq_iff)
  show ?thesis by (rule conjI [OF sample_resolve(1) resolution_cached [OF first]])
qed

subsection \<open>The handle\<close>

text \<open>
  The properties of the handle are stated for a host that is an addressable
  struct value with the target at one field position. That is the handle that
  \<open>newAssociation\<close> builds from a pointer to a record.
\<close>

lemma newAssociation_pointer:
  assumes "cacheOK E cache"
    and "newAssociation E cache (Val (TPtr (TStruct n fs)) (DPtr (Some c)) ad) pos = (Inr a, cache')"
  shows "rv a = Val (TStruct n fs) c True \<and> targetIndex (data a) = [pos] \<and>
         0 \<le> pos \<and> pos < int (length fs) \<and> cacheOK E cache'"
proof -
  obtain r c2 where ex: "extractAssociationData E cache (TStruct n fs) pos = (r, c2)"
    by (cases "extractAssociationData E cache (TStruct n fs) pos")
  with assms(2) obtain d where r: "r = Inr d" and a: "a = \<lparr>data = d, rv = Val (TStruct n fs) c True\<rparr>"
    and c2: "cache' = c2"
    by (auto simp: newAssociation_def split: sum.splits)
  from ex r have "fst (extractAssociationData E cache (TStruct n fs) pos) = Inr d" by simp
  with assms(1) have "resolve E (TStruct n fs) pos = Inr d" by (simp add: extract_fst)
  then obtain sf rT fT ref fk rid fid where
    sf: "Type_Field (TStruct n fs) pos = Inr sf"
    and d: "d = guessType sf (Tag_Get (sfTag sf) ''through'') rT fT
        \<lparr>typ = BelongsTo, targetIndex = sfIndex sf,
                referenceField = ref, referenceIndex = rid, referenceThrough = '''',
                foreignField = fk, foreignIndex = fid, foreignThrough = '''',
                through = '''', autosave = (Tag_Get (sfTag sf) ''autosave'' = ''true'')\<rparr>"
    by (rule resolve_Inr_cases)
  from sf have rng: "0 \<le> pos" "pos < int (length fs)" and idx: "sfIndex sf = [pos]"
    by (auto split: if_splits fdecl.splits)
  from extract_cacheOK [OF assms(1), of "TStruct n fs" pos] ex c2 have "cacheOK E cache'" by simp
  with a d rng idx show ?thesis by simp
qed






text \<open>
  Claim C8 (\<^verbatim>\<open>Document\<close>). On a handle over an addressable host: when the target
  field is a nil pointer to a record, \<^verbatim>\<open>Document()\<close> stores a pointer to a zero
  record in the field, wraps it and returns loaded \<open>False\<close>; when the pointer is
  set, it wraps the pointer, and when the field is a struct, it wraps the
  field's address; in both cases the host is unchanged and loaded is
  \<^verbatim>\<open>Persisted()\<close> of the wrapped record.
\<close>

theorem document_target:
  assumes "rv a = Val (TStruct n fs) (DStruct cs) True"
    and "targetIndex (data a) = [i]"
    and "0 \<le> i" and "i < int (length fs)" and "length cs = length fs"
    and "fs ! nat i = FDecl fn ft tg"
  shows "(ft = TPtr (TStruct m gs) \<and> cs ! nat i = DPtr None \<longrightarrow>
            Document H a =
              Inr ((NewDocument (Val ft (DPtr (Some (Zero (TStruct m gs)))) True), False),
                   a\<lparr>rv := Val (TStruct n fs)
                              (DStruct (cs[nat i := DPtr (Some (Zero (TStruct m gs)))])) True\<rparr>)) \<and>
         (ft = TPtr (TStruct m gs) \<and> cs ! nat i = DPtr (Some c) \<longrightarrow>
            Document H a =
              Inr ((NewDocument (Val ft (DPtr (Some c)) True),
                    Persisted H (NewDocument (Val ft (DPtr (Some c)) True))), a)) \<and>
         (ft = TStruct m gs \<longrightarrow>
            Document H a =
              Inr ((NewDocument (Val (TPtr ft) (DPtr (Some (cs ! nat i))) False),
                    Persisted H (NewDocument (Val (TPtr ft) (DPtr (Some (cs ! nat i))) False))), a))"
proof -
  note tf = target_field [OF assms]
  have nil: "Document H a =
              Inr ((NewDocument (Val ft (DPtr (Some (Zero (TStruct m gs)))) True), False),
                   a\<lparr>rv := Val (TStruct n fs)
                              (DStruct (cs[nat i := DPtr (Some (Zero (TStruct m gs)))])) True\<rparr>)"
    if "ft = TPtr (TStruct m gs)" "cs ! nat i = DPtr None"
    using that tf assms(1,2) by (simp add: Document_def New_def Let_def)
  have set: "Document H a =
              Inr ((NewDocument (Val ft (DPtr (Some c)) True),
                    Persisted H (NewDocument (Val ft (DPtr (Some c)) True))), a)"
    if "ft = TPtr (TStruct m gs)" "cs ! nat i = DPtr (Some c)"
    using that tf by (simp add: Document_def Let_def)
  have emb: "Document H a =
              Inr ((NewDocument (Val (TPtr ft) (DPtr (Some (cs ! nat i))) False),
                    Persisted H (NewDocument (Val (TPtr ft) (DPtr (Some (cs ! nat i))) False))), a)"
    if "ft = TStruct m gs"
    using that tf by (simp add: Document_def Let_def)
  from nil set emb show ?thesis by blast
qed

theorem document_target_witness:
  "Document sampleHandleEnv hAddressUser =
     Inr ((NewDocument (Val (TPtr tUser) (DPtr (Some (Zero tUser))) True), False),
          hAddressUser\<lparr>rv := Val tAddress (DStruct [DInt 3, DInt 0, DPtr (Some (Zero tUser))]) True\<rparr>) \<and>
   Document sampleHandleEnv hAddressUserSet =
     Inr ((NewDocument (Val (TPtr tUser) (DPtr (Some (DStruct [DInt 2, DString ''ann'']))) True), True),
          hAddressUserSet) \<and>
   Document sampleHandleEnv hOwnerPet =
     Inr ((NewDocument (Val (TPtr tPet) (DPtr (Some (DStruct [DInt 7, DInt 1, DString ''rex'']))) False),
           True), hOwnerPet)"
proof -
  have a1: "rv hAddressUser = Val (TStruct ''Address'' fsAddress) (DStruct csAddress) True"
    "targetIndex (data hAddressUser) = [2]" "0 \<le> (2::int)" "2 < int (length fsAddress)"
    "length csAddress = length fsAddress"
    "fsAddress ! nat 2 = FDecl ''User'' (TPtr (TStruct ''User'' fsUser)) []"
    by code_simp+
  have n1: "TPtr (TStruct ''User'' fsUser) = TPtr (TStruct ''User'' fsUser) \<and> csAddress ! nat 2 = DPtr None"
    by code_simp
  have e1: "Val (TStruct ''Address'' fsAddress)
              (DStruct (csAddress[nat 2 := DPtr (Some (Zero (TStruct ''User'' fsUser)))])) True =
            Val tAddress (DStruct [DInt 3, DInt 0, DPtr (Some (Zero tUser))]) True"
    "Val (TPtr (TStruct ''User'' fsUser)) (DPtr (Some (Zero (TStruct ''User'' fsUser)))) True =
     Val (TPtr tUser) (DPtr (Some (Zero tUser))) True"
    by code_simp+
  have a2: "rv hAddressUserSet = Val (TStruct ''Address'' fsAddress) (DStruct csAddressSet) True"
    "targetIndex (data hAddressUserSet) = [2]" "0 \<le> (2::int)" "2 < int (length fsAddress)"
    "length csAddressSet = length fsAddress"
    "fsAddress ! nat 2 = FDecl ''User'' (TPtr (TStruct ''User'' fsUser)) []"
    by code_simp+
  have n2: "TPtr (TStruct ''User'' fsUser) = TPtr (TStruct ''User'' fsUser) \<and>
            csAddressSet ! nat 2 = DPtr (Some (DStruct [DInt 2, DString ''ann'']))"
    by code_simp
  have e2: "Val (TPtr (TStruct ''User'' fsUser)) (DPtr (Some (DStruct [DInt 2, DString ''ann'']))) True =
            Val (TPtr tUser) (DPtr (Some (DStruct [DInt 2, DString ''ann'']))) True"
    "Persisted sampleHandleEnv
       (NewDocument (Val (TPtr tUser) (DPtr (Some (DStruct [DInt 2, DString ''ann'']))) True)) = True"
    by code_simp+
  have a3: "rv hOwnerPet = Val (TStruct ''Owner'' fsOwner) (DStruct csOwner) True"
    "targetIndex (data hOwnerPet) = [1]" "0 \<le> (1::int)" "1 < int (length fsOwner)"
    "length csOwner = length fsOwner"
    "fsOwner ! nat 1 = FDecl ''Pet'' (TStruct ''Pet'' fsPet) []"
    by code_simp+
  have e3: "Val (TPtr (TStruct ''Pet'' fsPet)) (DPtr (Some (csOwner ! nat 1))) False =
            Val (TPtr tPet) (DPtr (Some (DStruct [DInt 7, DInt 1, DString ''rex'']))) False"
    "Persisted sampleHandleEnv
       (NewDocument (Val (TPtr tPet) (DPtr (Some (DStruct [DInt 7, DInt 1, DString ''rex'']))) False)) = True"
    by code_simp+
  have r1: "Document sampleHandleEnv hAddressUser =
     Inr ((NewDocument (Val (TPtr tUser) (DPtr (Some (Zero tUser))) True), False),
          hAddressUser\<lparr>rv := Val tAddress (DStruct [DInt 3, DInt 0, DPtr (Some (Zero tUser))]) True\<rparr>)"
    using document_target [OF a1, where m = "''User''" and gs = fsUser and H = sampleHandleEnv] n1
    unfolding e1 by blast
  have r2: "Document sampleHandleEnv hAddressUserSet =
     Inr ((NewDocument (Val (TPtr tUser) (DPtr (Some (DStruct [DInt 2, DString ''ann'']))) True), True),
          hAddressUserSet)"
    using document_target [OF a2, where m = "''User''" and gs = fsUser and H = sampleHandleEnv
        and c = "DStruct [DInt 2, DString ''ann'']"] n2
    unfolding e2 by blast
  have r3: "Document sampleHandleEnv hOwnerPet =
     Inr ((NewDocument (Val (TPtr tPet) (DPtr (Some (DStruct [DInt 7, DInt 1, DString ''rex'']))) False),
           True), hOwnerPet)"
    using document_target [OF a3, where m = "''Pet''" and gs = fsPet and H = sampleHandleEnv]
    unfolding e3 by blast
  from r1 r2 r3 show ?thesis by blast
qed

text \<open>
  Claim C6 (totality on zero targets). Take a handle over an addressable host
  whose target field is a record, or a pointer to a record, and holds the zero
  value of its type (a zero struct, a nil pointer). Then \<^verbatim>\<open>Document()\<close> and
  \<^verbatim>\<open>IsZero()\<close> return, \<^verbatim>\<open>Collection()\<close> panics, and \<^verbatim>\<open>ForeignValue()\<close>
  returns when the handle has type \<open>BelongsTo\<close> or \<open>HasOne\<close>, the target is a
  struct and the foreign-key position is one of its fields.
\<close>

theorem singular_totality:
  assumes "rv a = Val (TStruct n fs) (DStruct cs) True"
    and "targetIndex (data a) = [i]"
    and "0 \<le> i" and "i < int (length fs)" and "length cs = length fs"
    and "fs ! nat i = FDecl fn ft tg"
    and "ft = TStruct m gs \<or> ft = TPtr (TStruct m gs)"
    and "cs ! nat i = Zero ft"
  shows "(\<exists>r. Document H a = Inr r) \<and> (\<exists>b. IsZero H a = Inr b) \<and>
         (\<exists>e. Collection a = Inl e) \<and>
         ((Type a = BelongsTo \<or> Type a = HasOne) \<and> ft = TStruct m gs \<and>
          0 \<le> foreignIndex (data a) \<and> foreignIndex (data a) < int (length gs) \<longrightarrow>
            (\<exists>x. ForeignValue H a = Inr x))"
proof -
  note tf = target_field [OF assms(1-6)]
  have doc: "\<exists>r. Document H a = Inr r"
    using assms(7,8) tf by (auto simp: Document_def New_def Let_def)
  have zero: "\<exists>b. IsZero H a = Inr b"
    using assms(7,8) tf by (auto simp: IsZero_def Indirect_def)
  have coll: "\<exists>e. Collection a = Inl e"
    using assms(7,8) tf by (auto simp: Collection_def New_def MakeSlice_def Let_def)
  have fv: "\<exists>x. ForeignValue H a = Inr x"
    if "Type a = BelongsTo \<or> Type a = HasOne" "ft = TStruct m gs"
       "0 \<le> foreignIndex (data a)" "foreignIndex (data a) < int (length gs)"
  proof -
    from that(1) have "\<not> (Type a = HasMany \<or> Type a = ManyToMany)" by auto
    moreover obtain gn gt gtg where "gs ! nat (foreignIndex (data a)) = FDecl gn gt gtg"
      by (cases "gs ! nat (foreignIndex (data a))")
    ultimately show ?thesis
      using that(2-4) assms(8) tf by (simp add: ForeignValue_def)
  qed
  from doc zero coll fv show ?thesis by blast
qed

theorem singular_totality_witness:
  "(\<exists>r. Document sampleHandleEnv hAddressUser = Inr r) \<and>
   (\<exists>b. IsZero sampleHandleEnv hAddressUser = Inr b) \<and>
   (\<exists>e. Collection hAddressUser = Inl e) \<and>
   (\<exists>r. Document sampleHandleEnv hOwnerFriend = Inr r) \<and>
   (\<exists>b. IsZero sampleHandleEnv hOwnerFriend = Inr b) \<and>
   (\<exists>e. Collection hOwnerFriend = Inl e) \<and>
   (\<exists>x. ForeignValue sampleHandleEnv hOwnerFriend = Inr x)"
proof -
  have a1: "rv hAddressUser = Val (TStruct ''Address'' fsAddress) (DStruct csAddress) True"
    "targetIndex (data hAddressUser) = [2]" "0 \<le> (2::int)" "2 < int (length fsAddress)"
    "length csAddress = length fsAddress"
    "fsAddress ! nat 2 = FDecl ''User'' (TPtr (TStruct ''User'' fsUser)) []"
    "TPtr (TStruct ''User'' fsUser) = TStruct ''User'' fsUser \<or>
     TPtr (TStruct ''User'' fsUser) = TPtr (TStruct ''User'' fsUser)"
    "csAddress ! nat 2 = Zero (TPtr (TStruct ''User'' fsUser))"
    by code_simp+
  have a2: "rv hOwnerFriend = Val (TStruct ''Owner'' fsOwner) (DStruct csOwner) True"
    "targetIndex (data hOwnerFriend) = [5]" "0 \<le> (5::int)" "5 < int (length fsOwner)"
    "length csOwner = length fsOwner"
    "fsOwner ! nat 5 = FDecl ''Friend'' (TStruct ''Pet'' fsPet) [(''ref'', ''name'')]"
    "TStruct ''Pet'' fsPet = TStruct ''Pet'' fsPet \<or> TStruct ''Pet'' fsPet = TPtr (TStruct ''Pet'' fsPet)"
    "csOwner ! nat 5 = Zero (TStruct ''Pet'' fsPet)"
    by code_simp+
  have fk: "(Type hOwnerFriend = BelongsTo \<or> Type hOwnerFriend = HasOne) \<and>
    TStruct ''Pet'' fsPet = TStruct ''Pet'' fsPet \<and>
    0 \<le> foreignIndex (data hOwnerFriend) \<and> foreignIndex (data hOwnerFriend) < int (length fsPet)"
    by code_simp
  from singular_totality [OF a1, where H = sampleHandleEnv]
    singular_totality [OF a2, where H = sampleHandleEnv] fk
  show ?thesis by blast
qed

text \<open>
  Claim C6, inputs on which a call does not return: on a has-one handle whose
  target pointer is nil \<^verbatim>\<open>ForeignValue()\<close> and \<^verbatim>\<open>Collection()\<close> panic, and on a
  has-one handle whose target is a zero struct \<^verbatim>\<open>Collection()\<close> panics.
\<close>

theorem singular_totality_counterexample:
  "fst (newAssociation sampleEnv Map.empty vOwner 4) = Inr hOwnerBadge \<and>
   Type hOwnerBadge = HasOne \<and>
   ForeignValue sampleHandleEnv hOwnerBadge =
     Inl (Panic ''reflect: call of reflect.Value.Field on zero Value'') \<and>
   Collection hOwnerBadge = Inl (Panic ''reflect.MakeSlice of non-slice type'') \<and>
   fst (newAssociation sampleEnv Map.empty vOwner 5) = Inr hOwnerFriend \<and>
   Type hOwnerFriend = HasOne \<and>
   Collection hOwnerFriend =
     Inl (Panic ''reflect: call of reflect.Value.IsNil on a value that cannot be nil'')"
  by code_simp

end
